theory Spec2Isabelle
  imports Complex_Main
begin

section \<open>IEEE 754 binary64 arithmetic\<close>

text \<open>
  The simulator computes with C \<^verbatim>\<open>double\<close> throughout.  A double is modelled by its
  class and, when finite, by sign, integer significand and exponent: \<open>Fin s m e\<close> stands
  for \<open>(-1)\<^sup>s \<sqdot> m \<sqdot> 2\<^sup>e\<close>.  The sign is \<open>True\<close> for negative numbers, so both zeros
  exist (\<open>Fin False 0 (-1074)\<close> and \<open>Fin True 0 (-1074)\<close>).  The operations produce the
  canonical representative: \<open>2\<^sup>5\<^sup>2 \<le> m < 2\<^sup>5\<^sup>3\<close> with \<open>-1074 \<le> e \<le> 971\<close> for normal
  numbers, \<open>m < 2\<^sup>5\<^sup>2\<close> with \<open>e = -1074\<close> for subnormal numbers and zero.  NaN payloads
  are not distinguished.  Every operation rounds to nearest, ties to even, and is
  evaluated in binary64 (no extended precision, no fused multiply-add).
\<close>

datatype double = NaN | Inf bool | Fin bool nat int

fun bitlen :: "nat \<Rightarrow> nat" where
  "bitlen n = (if n = 0 then 0 else Suc (bitlen (n div 2)))"

declare bitlen.simps [simp del]

text \<open>
  \<open>round_even M sh sticky\<close> is \<open>M / 2\<^sup>s\<^sup>h\<close> rounded to the nearest integer, ties to
  even, for \<open>sh > 0\<close>.  When \<open>sticky\<close> is set the exact magnitude lies strictly between
  \<open>M\<close> and \<open>M + 1\<close>, so what looks like a tie is above the midpoint.
\<close>

definition round_up :: "nat \<Rightarrow> nat \<Rightarrow> nat \<Rightarrow> bool \<Rightarrow> nat" where
  "round_up q r half sticky =
     (if half < r \<or> (r = half \<and> (sticky \<or> odd q)) then q + 1 else q)"

definition round_even :: "nat \<Rightarrow> nat \<Rightarrow> bool \<Rightarrow> nat" where
  "round_even M sh sticky = round_up (M div 2 ^ sh) (M mod 2 ^ sh) (2 ^ (sh - 1)) sticky"

text \<open>
  \<open>pack s m e\<close> finishes a rounding: a significand that rounding carried up to
  \<open>2\<^sup>5\<^sup>3\<close> moves to the next exponent, and an exponent above 971 overflows to infinity.
\<close>

definition pack :: "bool \<Rightarrow> nat \<Rightarrow> int \<Rightarrow> double" where
  "pack s m e =
     (if m = 2 ^ 53 then (if 971 < e + 1 then Inf s else Fin s (2 ^ 52) (e + 1))
      else if 971 < e then Inf s
      else Fin s m e)"

text \<open>
  \<open>rnd s M E sticky\<close> rounds the magnitude \<open>M \<sqdot> 2\<^sup>E\<close> (a little more when \<open>sticky\<close>
  is set) to binary64: to the exponent that leaves 53 bits, or to the least exponent
  \<open>-1074\<close> when that is larger (gradual underflow).  The only caller that sets
  \<open>sticky\<close>, \<open>round_ratio\<close>, supplies at least 56 bits in \<open>M\<close>, so bits are dropped
  whenever \<open>sticky\<close> is set.
\<close>

definition rnd_to :: "bool \<Rightarrow> nat \<Rightarrow> int \<Rightarrow> bool \<Rightarrow> int \<Rightarrow> double" where
  "rnd_to s M E sticky e =
     (if e \<le> E then pack s (M * 2 ^ nat (E - e)) e
      else pack s (round_even M (nat (e - E)) sticky) e)"

definition rnd :: "bool \<Rightarrow> nat \<Rightarrow> int \<Rightarrow> bool \<Rightarrow> double" where
  "rnd s M E sticky =
     (if M = 0 then Fin s 0 (- 1074)
      else rnd_to s M E sticky (max (E + int (bitlen M) - 53) (- 1074)))"

text \<open>The correctly rounded value of \<open>(p / q) \<sqdot> 2\<^sup>E\<close> for \<open>q > 0\<close>.\<close>

definition quot_rnd :: "bool \<Rightarrow> nat \<Rightarrow> nat \<Rightarrow> int \<Rightarrow> double" where
  "quot_rnd s P q E = rnd s (P div q) E (P mod q \<noteq> 0)"

definition round_ratio :: "bool \<Rightarrow> nat \<Rightarrow> nat \<Rightarrow> int \<Rightarrow> double" where
  "round_ratio s p q E =
     quot_rnd s (p * 2 ^ (bitlen q + 55)) q (E - int (bitlen q + 55))"

fun dmul :: "double \<Rightarrow> double \<Rightarrow> double" where
  "dmul NaN y = NaN"
| "dmul x NaN = NaN"
| "dmul (Inf s1) (Inf s2) = Inf (s1 \<noteq> s2)"
| "dmul (Inf s1) (Fin s2 m2 e2) = (if m2 = 0 then NaN else Inf (s1 \<noteq> s2))"
| "dmul (Fin s1 m1 e1) (Inf s2) = (if m1 = 0 then NaN else Inf (s1 \<noteq> s2))"
| "dmul (Fin s1 m1 e1) (Fin s2 m2 e2) = rnd (s1 \<noteq> s2) (m1 * m2) (e1 + e2) False"

fun ddiv :: "double \<Rightarrow> double \<Rightarrow> double" where
  "ddiv NaN y = NaN"
| "ddiv x NaN = NaN"
| "ddiv (Inf s1) (Inf s2) = NaN"
| "ddiv (Inf s1) (Fin s2 m2 e2) = Inf (s1 \<noteq> s2)"
| "ddiv (Fin s1 m1 e1) (Inf s2) = Fin (s1 \<noteq> s2) 0 (- 1074)"
| "ddiv (Fin s1 m1 e1) (Fin s2 m2 e2) =
     (if m2 = 0 then (if m1 = 0 then NaN else Inf (s1 \<noteq> s2))
      else round_ratio (s1 \<noteq> s2) m1 m2 (e1 - e2))"

text \<open>
  The sum of two finite magnitudes \<open>a \<sqdot> 2\<^sup>e\<close> and \<open>b \<sqdot> 2\<^sup>e\<close> with signs \<open>s1\<close> and
  \<open>s2\<close>; an exact zero difference is \<open>+0\<close>.
\<close>

definition add_mag :: "bool \<Rightarrow> nat \<Rightarrow> bool \<Rightarrow> nat \<Rightarrow> int \<Rightarrow> double" where
  "add_mag s1 a s2 b e =
     (if s1 = s2 then rnd s1 (a + b) e False
      else if a = b then Fin False 0 (- 1074)
      else if b < a then rnd s1 (a - b) e False
      else rnd s2 (b - a) e False)"

fun dadd :: "double \<Rightarrow> double \<Rightarrow> double" where
  "dadd NaN y = NaN"
| "dadd x NaN = NaN"
| "dadd (Inf s1) (Inf s2) = (if s1 = s2 then Inf s1 else NaN)"
| "dadd (Inf s1) (Fin s2 m2 e2) = Inf s1"
| "dadd (Fin s1 m1 e1) (Inf s2) = Inf s2"
| "dadd (Fin s1 m1 e1) (Fin s2 m2 e2) =
     add_mag s1 (m1 * 2 ^ nat (e1 - min e1 e2)) s2 (m2 * 2 ^ nat (e2 - min e1 e2)) (min e1 e2)"

text \<open>The real number a finite double stands for.\<close>

fun valof :: "double \<Rightarrow> real" where
  "valof (Fin s m e) =
     (if s then - 1 else 1) * (if 0 \<le> e then real m * 2 ^ nat e else real m / 2 ^ nat (- e))"
| "valof x = 0"

fun is_finite :: "double \<Rightarrow> bool" where
  "is_finite (Fin s m e) = True"
| "is_finite x = False"

text \<open>The comparisons of C: every comparison with a NaN is false, and \<open>-0 = +0\<close>.\<close>

fun dlt :: "double \<Rightarrow> double \<Rightarrow> bool" where
  "dlt NaN y = False"
| "dlt x NaN = False"
| "dlt (Inf s1) (Inf s2) = (if s2 then False else s1)"
| "dlt (Inf s1) (Fin s2 m2 e2) = s1"
| "dlt (Fin s1 m1 e1) (Inf s2) = (\<not> s2)"
| "dlt (Fin s1 m1 e1) (Fin s2 m2 e2) = (valof (Fin s1 m1 e1) < valof (Fin s2 m2 e2))"

fun dle :: "double \<Rightarrow> double \<Rightarrow> bool" where
  "dle NaN y = False"
| "dle x NaN = False"
| "dle (Inf s1) (Inf s2) = (if s2 then s1 else True)"
| "dle (Inf s1) (Fin s2 m2 e2) = s1"
| "dle (Fin s1 m1 e1) (Inf s2) = (\<not> s2)"
| "dle (Fin s1 m1 e1) (Fin s2 m2 e2) = (valof (Fin s1 m1 e1) \<le> valof (Fin s2 m2 e2))"

definition dgt :: "double \<Rightarrow> double \<Rightarrow> bool" where
  "dgt x y = dlt y x"

definition dge :: "double \<Rightarrow> double \<Rightarrow> bool" where
  "dge x y = dle y x"

text \<open>
  Literals.  A decimal literal denotes the double nearest to its value; an integer
  below \<open>2\<^sup>5\<^sup>3\<close> converts exactly.
\<close>

definition d_of_nat :: "nat \<Rightarrow> double" where
  "d_of_nat n = rnd False n 0 False"

definition d_lit :: "nat \<Rightarrow> nat \<Rightarrow> double" where
  "d_lit p q = round_ratio False p q 0"

definition d_zero :: double where
  "d_zero = Fin False 0 (- 1074)"

fun is_nan :: "double \<Rightarrow> bool" where
  "is_nan NaN = True"
| "is_nan x = False"

fun is_zero :: "double \<Rightarrow> bool" where
  "is_zero (Fin s m e) = (m = 0)"
| "is_zero x = False"

section \<open>The hydraulic model of \<^verbatim>\<open>asim.c\<close>\<close>

definition GRAVITY :: double where
  "GRAVITY = d_lit 981 100"

text \<open>\<^verbatim>\<open>M_PI\<close> of \<^verbatim>\<open>math.h\<close>: the literal \<^verbatim>\<open>3.14159265358979323846\<close>.\<close>

definition M_PI :: double where
  "M_PI = d_lit 314159265358979323846 100000000000000000000"

text \<open>
  \<^verbatim>\<open>pow\<close> belongs to the C library, which is not part of the program, and the
  library need not round correctly: its \<^verbatim>\<open>pow(x, 2)\<close> can be a neighbour of the double
  nearest to \<open>x\<^sup>2\<close>.  The two functions that call it are therefore modelled with the
  square as a parameter \<open>sq\<close>, the function \<open>x \<mapsto>\<close> \<^verbatim>\<open>pow(x, 2)\<close> of the library in use
  (\<open>calculate_head_loss_pow\<close>, \<open>update_tank_pow\<close>).  \<open>pow2\<close> is the correctly rounded
  square: what the call computes when the compiler expands it into the product
  \<^verbatim>\<open>x * x\<close>, and what the GNU C library returns at the squares that the scenarios
  evaluated below need (those of 0, 0.05, 1, \<open>2\<^sup>-\<^sup>6\<^sup>0\<^sup>0\<close> and of the velocity of
  \<^verbatim>\<open>main\<close>), though not at every double.  \<open>calculate_head_loss\<close> and \<open>update_tank\<close>
  are the two functions with that square.
\<close>

definition pow2 :: "double \<Rightarrow> double" where
  "pow2 x = dmul x x"

record Pump =
  flow_rate :: double
  head :: double
  power_w :: double

record Pipe =
  length_m :: double
  diameter :: double
  roughness :: double
  velocity :: double
  density :: double

record Tank =
  height :: double
  radius :: double
  water_level :: double

text \<open>What the program writes to standard output, line by line.\<close>

datatype line =
    Starting
  | Header
  | Rule
  | NoFlow
  | Overflow
  | Observation double double double double
  | Complete

definition calculate_friction_factor :: "double \<Rightarrow> double" where
  "calculate_friction_factor reynolds_number =
     (if dlt reynolds_number (d_of_nat 2000) then ddiv (d_of_nat 64) reynolds_number
      else d_lit 2 100)"

text \<open>The function writes \<^verbatim>\<open>pipe->velocity\<close>; the model returns the pipe with the result.\<close>

definition calculate_head_loss_pow ::
  "(double \<Rightarrow> double) \<Rightarrow> Pipe \<Rightarrow> double \<Rightarrow> double \<times> Pipe" where
  "calculate_head_loss_pow sq pipe q =
     (let area = dmul M_PI (sq (ddiv (diameter pipe) (d_of_nat 2)));
          pipe' = pipe\<lparr>velocity := ddiv q area\<rparr>;
          reynolds_number =
            ddiv (dmul (dmul (density pipe') (velocity pipe')) (diameter pipe')) (d_lit 1 1000);
          friction_factor = calculate_friction_factor reynolds_number
      in (ddiv (dmul (dmul friction_factor (ddiv (length_m pipe') (diameter pipe')))
                     (sq (velocity pipe')))
               (dmul (d_of_nat 2) GRAVITY),
          pipe'))"

definition calculate_head_loss :: "Pipe \<Rightarrow> double \<Rightarrow> double \<times> Pipe" where
  "calculate_head_loss pipe q = calculate_head_loss_pow pow2 pipe q"

definition calculate_pump_power :: "Pump \<Rightarrow> Pipe \<Rightarrow> double" where
  "calculate_pump_power pump pipe =
     dmul (dmul (dmul (density pipe) GRAVITY) (flow_rate pump)) (head pump)"

text \<open>
  \<^verbatim>\<open>update_tank\<close> mutates the three records through pointers and prints notices; the
  model returns the three records and the lines printed.
\<close>

definition update_tank_pow ::
  "(double \<Rightarrow> double) \<Rightarrow> Tank \<Rightarrow> Pump \<Rightarrow> Pipe \<Rightarrow> double \<Rightarrow>
   Tank \<times> Pump \<times> Pipe \<times> line list" where
  "update_tank_pow sq tank pump pipe time_step =
     (let (head_loss, pipe') = calculate_head_loss_pow sq pipe (flow_rate pump) in
      if dlt (head pump) head_loss then (tank, pump, pipe', [NoFlow])
      else
        (let effective_flow_rate = flow_rate pump;
             tank_area = dmul M_PI (sq (radius tank));
             level = dadd (water_level tank) (dmul (ddiv effective_flow_rate tank_area) time_step);
             full = dgt level (height tank);
             tank' = tank\<lparr>water_level := (if full then height tank else level)\<rparr>;
             pump' = pump\<lparr>power_w := calculate_pump_power pump pipe'\<rparr>
         in (tank', pump', pipe', if full then [Overflow] else [])))"

definition update_tank ::
  "Tank \<Rightarrow> Pump \<Rightarrow> Pipe \<Rightarrow> double \<Rightarrow> Tank \<times> Pump \<times> Pipe \<times> line list" where
  "update_tank tank pump pipe time_step = update_tank_pow pow2 tank pump pipe time_step"

text \<open>
  The loop of \<^verbatim>\<open>simulate_system\<close>.  It need not terminate (a \<^verbatim>\<open>time_step\<close> that is
  zero, negative, NaN or lost in rounding never advances \<^verbatim>\<open>current_time\<close>), so the
  result is optional: \<open>None\<close> is a run that never returns.  The lines printed so far
  are accumulated in \<open>out\<close>.  \<^verbatim>\<open>usleep\<close> acts on the world outside the program only:
  \<open>sleeper\<close> is its effect on that world, \<open>w\<close>, given the product
  \<^verbatim>\<open>time_step * 1e6\<close> (the conversion of the product to an integer number of
  microseconds belongs to the sleeper); its return value is not used.  A line of
  output is modelled by the \<^verbatim>\<open>printf\<close> call that prints it and the doubles it is
  given.
\<close>

partial_function (option) simulate_loop ::
  "(double \<Rightarrow> 'w \<Rightarrow> 'w) \<Rightarrow> double \<Rightarrow> double \<Rightarrow>
   'w \<times> double \<times> Tank \<times> Pump \<times> Pipe \<times> line list \<Rightarrow>
   ('w \<times> Tank \<times> Pump \<times> Pipe \<times> line list) option" where
  "simulate_loop sleeper simulation_duration time_step st =
     (case st of (w, current_time, tank, pump, pipe, out) \<Rightarrow>
        if dlt current_time simulation_duration then
          (case update_tank tank pump pipe time_step of (tank', pump', pipe', notices) \<Rightarrow>
             simulate_loop sleeper simulation_duration time_step
               (sleeper (dmul time_step (d_of_nat 1000000)) w,
                dadd current_time time_step, tank', pump', pipe',
                out @ notices @
                  [Observation current_time (water_level tank') (flow_rate pump') (power_w pump')]))
        else Some (w, tank, pump, pipe, out))"

definition simulate_system ::
  "(double \<Rightarrow> 'w \<Rightarrow> 'w) \<Rightarrow> 'w \<Rightarrow> Pump \<Rightarrow> Pipe \<Rightarrow> Tank \<Rightarrow> double \<Rightarrow> double \<Rightarrow>
   ('w \<times> Tank \<times> Pump \<times> Pipe \<times> line list) option" where
  "simulate_system sleeper w pump pipe tank simulation_duration time_step =
     simulate_loop sleeper simulation_duration time_step
       (w, d_zero, tank, pump, pipe, [Header, Rule])"

text \<open>The compiled-in parameters of \<^verbatim>\<open>main\<close>.\<close>

definition main_pump :: Pump where
  "main_pump = \<lparr>flow_rate = d_lit 1 100, head = d_of_nat 10, power_w = d_zero\<rparr>"

definition main_pipe :: Pipe where
  "main_pipe = \<lparr>length_m = d_of_nat 50, diameter = d_lit 1 10, roughness = d_lit 15 1000,
                 velocity = d_zero, density = d_of_nat 1000\<rparr>"

definition main_tank :: Tank where
  "main_tank = \<lparr>height = d_of_nat 5, radius = d_of_nat 1, water_level = d_zero\<rparr>"

definition main :: "(double \<Rightarrow> 'w \<Rightarrow> 'w) \<Rightarrow> 'w \<Rightarrow> ('w \<times> line list) option" where
  "main sleeper w =
     (case simulate_system sleeper w main_pump main_pipe main_tank (d_of_nat 60) (d_of_nat 1) of
        None \<Rightarrow> None
      | Some (w', tank, pump, pipe, out) \<Rightarrow> Some (w', Starting # out @ [Complete]))"

section \<open>Auxiliary notions for the statements\<close>

text \<open>The sign of a double that has one, and the doubles \<open>x\<close> with \<open>0 \<le> x\<close>.\<close>

fun has_sign :: "bool \<Rightarrow> double \<Rightarrow> bool" where
  "has_sign s NaN = False"
| "has_sign s (Inf s') = (s' = s)"
| "has_sign s (Fin s' m e) = (s' = s)"

fun nonneg :: "double \<Rightarrow> bool" where
  "nonneg NaN = False"
| "nonneg (Inf s) = (\<not> s)"
| "nonneg (Fin s m e) = (\<not> s \<or> m = 0)"

text \<open>The value of \<^verbatim>\<open>current_time\<close> after \<open>i\<close> iterations of the loop.\<close>

fun time_after :: "double \<Rightarrow> nat \<Rightarrow> double" where
  "time_after time_step 0 = d_zero"
| "time_after time_step (Suc i) = dadd (time_after time_step i) time_step"

fun is_observation :: "line \<Rightarrow> bool" where
  "is_observation (Observation t h q p) = True"
| "is_observation l = False"

definition obs_count :: "line list \<Rightarrow> nat" where
  "obs_count out = length (filter is_observation out)"

text \<open>What a run leaves behind in the program: the three records and the output.\<close>

definition outcome ::
  "('w \<times> Tank \<times> Pump \<times> Pipe \<times> line list) option \<Rightarrow> (Tank \<times> Pump \<times> Pipe \<times> line list) option" where
  "outcome r = map_option snd r"

definition printed :: "('w \<times> Tank \<times> Pump \<times> Pipe \<times> line list) option \<Rightarrow> line list option" where
  "printed r = map_option (\<lambda>(w, tank, pump, pipe, out). out) r"

section \<open>The two functions with the correctly rounded square\<close>

lemma calculate_head_loss_unfold:
  "calculate_head_loss pipe q =
     (let area = dmul M_PI (pow2 (ddiv (diameter pipe) (d_of_nat 2)));
          pipe' = pipe\<lparr>velocity := ddiv q area\<rparr>;
          reynolds_number =
            ddiv (dmul (dmul (density pipe') (velocity pipe')) (diameter pipe')) (d_lit 1 1000);
          friction_factor = calculate_friction_factor reynolds_number
      in (ddiv (dmul (dmul friction_factor (ddiv (length_m pipe') (diameter pipe')))
                     (pow2 (velocity pipe')))
               (dmul (d_of_nat 2) GRAVITY),
          pipe'))"
  by (simp add: calculate_head_loss_def calculate_head_loss_pow_def)

lemma update_tank_unfold:
  "update_tank tank pump pipe time_step =
     (let (head_loss, pipe') = calculate_head_loss pipe (flow_rate pump) in
      if dlt (head pump) head_loss then (tank, pump, pipe', [NoFlow])
      else
        (let effective_flow_rate = flow_rate pump;
             tank_area = dmul M_PI (pow2 (radius tank));
             level = dadd (water_level tank) (dmul (ddiv effective_flow_rate tank_area) time_step);
             full = dgt level (height tank);
             tank' = tank\<lparr>water_level := (if full then height tank else level)\<rparr>;
             pump' = pump\<lparr>power_w := calculate_pump_power pump pipe'\<rparr>
         in (tank', pump', pipe', if full then [Overflow] else [])))"
  by (simp add: update_tank_def update_tank_pow_def calculate_head_loss_def)

section \<open>Signs and order of doubles\<close>

lemma pack_sign: "has_sign s (pack s m e)"
  by (simp add: pack_def)

lemma rnd_sign: "has_sign s (rnd s M E sticky)"
  by (simp add: rnd_def rnd_to_def pack_sign)

lemma rnd_zero: "rnd s 0 E sticky = Fin s 0 (- 1074)"
  by (simp add: rnd_def)

lemma round_ratio_sign: "has_sign s (round_ratio s p q E)"
  by (simp add: round_ratio_def quot_rnd_def rnd_sign)

lemma round_ratio_zero: "round_ratio s 0 q E = Fin s 0 (- 1074)"
  by (simp add: round_ratio_def quot_rnd_def rnd_zero)

lemma has_sign_nonneg: "has_sign False x \<Longrightarrow> nonneg x"
  by (cases x) auto

lemma two_power_pos: "\<not> (2::real) ^ n \<le> 0"
  by (simp add: not_le)

lemma valof_nonneg_iff: "0 \<le> valof (Fin s m e) \<longleftrightarrow> \<not> s \<or> m = 0"
  by (auto simp: zero_le_mult_iff zero_le_divide_iff mult_le_0_iff divide_le_0_iff two_power_pos)

lemma valof_pos_iff: "0 < valof (Fin s m e) \<longleftrightarrow> \<not> s \<and> m \<noteq> 0"
  by (auto simp: zero_less_mult_iff zero_less_divide_iff mult_less_0_iff divide_less_0_iff)

lemma dle_zero_iff: "dle d_zero x \<longleftrightarrow> nonneg x"
proof (cases x)
  case (Fin s m e)
  have "valof d_zero = 0" by (simp add: d_zero_def)
  then have "dle d_zero x \<longleftrightarrow> 0 \<le> valof (Fin s m e)"
    using Fin by (simp add: d_zero_def del: valof.simps)
  then show ?thesis using Fin by (simp add: valof_nonneg_iff del: valof.simps)
qed (simp_all add: d_zero_def)

lemma dlt_zero_iff:
  "dlt d_zero x \<longleftrightarrow> (case x of NaN \<Rightarrow> False | Inf s \<Rightarrow> \<not> s | Fin s m e \<Rightarrow> \<not> s \<and> m \<noteq> 0)"
proof (cases x)
  case (Fin s m e)
  have "valof d_zero = 0" by (simp add: d_zero_def)
  then have "dlt d_zero x \<longleftrightarrow> 0 < valof (Fin s m e)"
    using Fin by (simp add: d_zero_def del: valof.simps)
  then show ?thesis using Fin by (simp add: valof_pos_iff del: valof.simps)
qed (simp_all add: d_zero_def)

lemma dle_not_nan: "dle x y \<Longrightarrow> \<not> is_nan x \<and> \<not> is_nan y"
  by (cases x; cases y) auto

lemma dle_refl: "\<not> is_nan x \<Longrightarrow> dle x x"
  by (cases x) auto

lemma dle_trans: "dle x y \<Longrightarrow> dle y z \<Longrightarrow> dle x z"
  by (cases x; cases y; cases z) (auto split: if_splits simp del: valof.simps)

lemma not_dlt_dle: "\<not> dlt x y \<Longrightarrow> \<not> is_nan x \<Longrightarrow> \<not> is_nan y \<Longrightarrow> dle y x"
  by (cases x; cases y) (auto split: if_splits simp del: valof.simps)

lemma dge_not_dlt: "dge x y \<Longrightarrow> \<not> dlt x y"
  by (cases x; cases y) (auto simp: dge_def split: if_splits simp del: valof.simps)

lemma dmul_self_sign: "is_nan (dmul x x) \<or> has_sign False (dmul x x)"
  by (cases x) (auto simp: rnd_sign)

lemma dmul_sign:
  "has_sign s1 x \<Longrightarrow> has_sign s2 y \<Longrightarrow> is_nan (dmul x y) \<or> has_sign (s1 \<noteq> s2) (dmul x y)"
  by (cases x; cases y) (auto simp: rnd_sign)

lemma nonneg_dmul: "nonneg x \<Longrightarrow> nonneg y \<Longrightarrow> is_nan (dmul x y) \<or> nonneg (dmul x y)"
proof (cases x; cases y)
  fix s1 m1 e1 s2 m2 e2
  assume x: "x = Fin s1 m1 e1" and y: "y = Fin s2 m2 e2" and nn: "nonneg x" "nonneg y"
  show ?thesis
  proof (cases "m1 = 0 \<or> m2 = 0")
    case True
    then show ?thesis using x y by (auto simp: rnd_zero)
  next
    case False
    with nn x y have "s1 = False" "s2 = False" by auto
    then show ?thesis using x y rnd_sign [of False "m1 * m2" "e1 + e2" False]
      by (simp add: has_sign_nonneg)
  qed
qed auto

lemma nonneg_ddiv:
  "nonneg x \<Longrightarrow> has_sign False y \<Longrightarrow> is_nan (ddiv x y) \<or> nonneg (ddiv x y)"
proof (cases x; cases y)
  fix s1 m1 e1 s2 m2 e2
  assume x: "x = Fin s1 m1 e1" and y: "y = Fin s2 m2 e2" and nn: "nonneg x" "has_sign False y"
  show ?thesis
  proof (cases "m1 = 0")
    case True
    then show ?thesis using x y by (auto simp: round_ratio_zero)
  next
    case False
    with nn x y have "s1 = False" "s2 = False" by auto
    then show ?thesis using x y round_ratio_sign [of False m1 m2 "e1 - e2"]
      by (simp add: has_sign_nonneg)
  qed
qed auto

lemma add_mag_nonneg:
  "(\<not> s1 \<or> a = 0) \<Longrightarrow> (\<not> s2 \<or> b = 0) \<Longrightarrow> nonneg (add_mag s1 a s2 b e)"
  using rnd_sign [of False "a + b" e False] rnd_sign [of False "a - b" e False]
    rnd_sign [of False "b - a" e False]
  by (cases s1; cases s2) (auto simp: add_mag_def rnd_zero has_sign_nonneg)

lemma nonneg_dadd: "nonneg x \<Longrightarrow> nonneg y \<Longrightarrow> nonneg (dadd x y)"
  by (cases x; cases y) (auto intro!: add_mag_nonneg)

lemma d_lit_sign: "has_sign False (d_lit p q)"
  by (simp add: d_lit_def round_ratio_sign)


lemma dmul_not_nan: "\<not> is_nan (dmul x y) \<Longrightarrow> \<not> is_nan x \<and> \<not> is_nan y"
  by (cases x; cases y) auto

lemma ddiv_not_nan: "\<not> is_nan (ddiv x y) \<Longrightarrow> \<not> is_nan x \<and> \<not> is_nan y"
  by (cases x; cases y) auto

lemma nonneg_not_nan: "nonneg x \<Longrightarrow> \<not> is_nan x"
  by (cases x) auto

lemma has_sign_not_nan: "has_sign s x \<Longrightarrow> \<not> is_nan x"
  by (cases x) auto

lemma rnd_not_nan: "\<not> is_nan (rnd s M E sticky)"
  using rnd_sign has_sign_not_nan by blast

lemma round_ratio_not_nan: "\<not> is_nan (round_ratio s p q E)"
  using round_ratio_sign has_sign_not_nan by blast

lemma increment_not_nan:
  assumes "is_finite q" "is_finite dt" "dlt d_zero dt" "\<not> is_nan a" "\<not> is_zero a"
  shows "\<not> is_nan (dmul (ddiv q a) dt)"
proof -
  obtain s1 m1 e1 where q: "q = Fin s1 m1 e1" using assms(1) by (cases q) auto
  obtain s3 m3 e3 where dt: "dt = Fin s3 m3 e3" using assms(2) by (cases dt) auto
  have m3: "m3 \<noteq> 0" using assms(3) dt by (simp add: dlt_zero_iff)
  have "\<not> is_nan (ddiv q a)"
    using q assms(4,5) round_ratio_not_nan by (cases a) auto
  then show ?thesis
    using dt m3 rnd_not_nan by (cases "ddiv q a") auto
qed

lemma M_PI_sign: "has_sign False M_PI"
  by (simp add: M_PI_def d_lit_sign)

lemma tank_area_sign:
  "\<not> is_nan (dmul M_PI (pow2 r)) \<Longrightarrow> has_sign False (dmul M_PI (pow2 r))"
proof -
  assume a: "\<not> is_nan (dmul M_PI (pow2 r))"
  then have "\<not> is_nan (pow2 r)" using dmul_not_nan by blast
  then have "has_sign False (pow2 r)" using dmul_self_sign [of r] by (simp add: pow2_def)
  then show ?thesis using dmul_sign [OF M_PI_sign, of False "pow2 r"] a by simp
qed

lemma update_tank_no_flow_eq:
  "dlt (head pump) (fst (calculate_head_loss pipe (flow_rate pump))) \<Longrightarrow>
   update_tank tank pump pipe time_step =
     (tank, pump, snd (calculate_head_loss pipe (flow_rate pump)), [NoFlow])"
  by (simp add: update_tank_unfold case_prod_beta)

lemma update_tank_flow_eq:
  "\<not> dlt (head pump) (fst (calculate_head_loss pipe (flow_rate pump))) \<Longrightarrow>
   update_tank tank pump pipe time_step =
     (tank\<lparr>water_level :=
         (if dgt (dadd (water_level tank)
                   (dmul (ddiv (flow_rate pump) (dmul M_PI (pow2 (radius tank)))) time_step))
               (height tank)
          then height tank
          else dadd (water_level tank)
                 (dmul (ddiv (flow_rate pump) (dmul M_PI (pow2 (radius tank)))) time_step))\<rparr>,
      pump\<lparr>power_w :=
         calculate_pump_power pump (snd (calculate_head_loss pipe (flow_rate pump)))\<rparr>,
      snd (calculate_head_loss pipe (flow_rate pump)),
      if dgt (dadd (water_level tank)
                (dmul (ddiv (flow_rate pump) (dmul M_PI (pow2 (radius tank)))) time_step))
            (height tank)
      then [Overflow] else [])"
  by (simp add: update_tank_unfold case_prod_beta Let_def)

lemma calculate_head_loss_snd:
  "snd (calculate_head_loss pipe q) =
     pipe\<lparr>velocity := ddiv q (dmul M_PI (pow2 (ddiv (diameter pipe) (d_of_nat 2))))\<rparr>"
  by (simp add: calculate_head_loss_unfold Let_def)

lemma calculate_head_loss_fst_cong:
  "length_m p1 = length_m p2 \<Longrightarrow> diameter p1 = diameter p2 \<Longrightarrow> density p1 = density p2 \<Longrightarrow>
   fst (calculate_head_loss p1 q) = fst (calculate_head_loss p2 q)"
  by (simp add: calculate_head_loss_unfold Let_def)

lemma bitlen_bound: "n < 2 ^ bitlen n"
proof (induction n rule: bitlen.induct)
  case (1 n)
  show ?case
  proof (cases "n = 0")
    case True
    then show ?thesis by (simp add: bitlen.simps)
  next
    case False
    then have "n div 2 < 2 ^ bitlen (n div 2)" using 1 by simp
    then have "n < 2 * 2 ^ bitlen (n div 2)" by linarith
    then show ?thesis using False by (subst bitlen.simps) simp
  qed
qed

lemma bitlen_le: "n < 2 ^ k \<Longrightarrow> bitlen n \<le> k"
proof (induction n arbitrary: k rule: bitlen.induct)
  case (1 n)
  show ?case
  proof (cases "n = 0")
    case True
    then show ?thesis by (simp add: bitlen.simps)
  next
    case False
    then obtain j where k: "k = Suc j" using 1(2) by (cases k) auto
    then have "n div 2 < 2 ^ j" using 1(2) by auto
    then have "bitlen (n div 2) \<le> j" using 1(1) False by simp
    then show ?thesis using False k by (subst bitlen.simps) simp
  qed
qed

text \<open>An integer below \<open>2\<^sup>5\<^sup>3\<close> converts to a double without rounding.\<close>

lemma valof_d_of_nat: "n < 2 ^ 53 \<Longrightarrow> valof (d_of_nat n) = real n"
proof (cases "n = 0")
  case True
  then show ?thesis by (simp add: d_of_nat_def rnd_def)
next
  case False
  assume n: "n < 2 ^ 53"
  define b where "b = bitlen n"
  have b: "b \<le> 53" using n by (simp add: b_def bitlen_le)
  have nb: "n < 2 ^ b" by (simp add: b_def bitlen_bound)
  have e: "max (0 + int b - 53) (- 1074) = int b - 53" by simp
  have "n * 2 ^ (53 - b) < 2 ^ b * 2 ^ (53 - b)" using nb by simp
  also have "\<dots> = (2::nat) ^ 53" using b by (simp flip: power_add)
  finally have m: "n * 2 ^ (53 - b) \<noteq> 2 ^ 53" by simp
  have shift: "nat (53 - int b) = 53 - b" using b by simp
  have d: "d_of_nat n = Fin False (n * 2 ^ (53 - b)) (int b - 53)"
    using False m b
    by (simp add: d_of_nat_def rnd_def rnd_to_def pack_def b_def [symmetric] shift e)
  show ?thesis
  proof (cases "b = 53")
    case True
    then show ?thesis by (simp add: d)
  next
    case nt: False
    then have "\<not> 0 \<le> int b - 53" "nat (- (int b - 53)) = 53 - b" using b by auto
    then show ?thesis by (simp add: d)
  qed
qed

section \<open>Evaluating the arithmetic on numerals\<close>

lemma bitlen_0: "bitlen 0 = 0"
  by (simp add: bitlen.simps)

lemma bitlen_Suc_0: "bitlen (Suc 0) = 1"
  by (simp add: bitlen.simps)

lemma bitlen_One: "bitlen (numeral Num.One) = 1"
  by (simp add: bitlen.simps)

lemma bitlen_Bit0: "bitlen (numeral (Num.Bit0 k)) = bitlen (numeral k) + 1"
  by (subst bitlen.simps) (simp add: numeral_Bit0_div_2)

lemma bitlen_Bit1: "bitlen (numeral (Num.Bit1 k)) = bitlen (numeral k) + 1"
  by (subst bitlen.simps) (simp add: numeral_Bit1_div_2)

lemmas fp_eval = round_ratio_def quot_rnd_def rnd_def rnd_to_def pack_def
  round_even_def round_up_def add_mag_def
  bitlen_0 bitlen_Suc_0 bitlen_One bitlen_Bit0 bitlen_Bit1

text \<open>The literals of the program.\<close>

lemma d_of_nat_1: "d_of_nat 1 = Fin False 4503599627370496 (- 52)"
  by (simp add: d_of_nat_def fp_eval)

lemma d_of_nat_2: "d_of_nat 2 = Fin False 4503599627370496 (- 51)"
  by (simp add: d_of_nat_def fp_eval)

lemma d_of_nat_5: "d_of_nat 5 = Fin False 5629499534213120 (- 50)"
  by (simp add: d_of_nat_def fp_eval)

lemma d_of_nat_10: "d_of_nat 10 = Fin False 5629499534213120 (- 49)"
  by (simp add: d_of_nat_def fp_eval)

lemma d_of_nat_50: "d_of_nat 50 = Fin False 7036874417766400 (- 47)"
  by (simp add: d_of_nat_def fp_eval)

lemma d_of_nat_60: "d_of_nat 60 = Fin False 8444249301319680 (- 47)"
  by (simp add: d_of_nat_def fp_eval)

lemma d_of_nat_64: "d_of_nat 64 = Fin False 4503599627370496 (- 46)"
  by (simp add: d_of_nat_def fp_eval)

lemma d_of_nat_1000: "d_of_nat 1000 = Fin False 8796093022208000 (- 43)"
  by (simp add: d_of_nat_def fp_eval)

lemma d_of_nat_2000: "d_of_nat 2000 = Fin False 8796093022208000 (- 42)"
  by (simp add: d_of_nat_def fp_eval)

lemma d_of_nat_1000000: "d_of_nat 1000000 = Fin False 8589934592000000 (- 33)"
  by (simp add: d_of_nat_def fp_eval)

lemma d_of_nat_Suc_0: "d_of_nat (Suc 0) = Fin False 4503599627370496 (- 52)"
  by (simp add: d_of_nat_def fp_eval)

lemma d_lit_1_10: "d_lit 1 10 = Fin False 7205759403792794 (- 56)"
  by (simp add: d_lit_def fp_eval)

lemma d_lit_1_100: "d_lit 1 100 = Fin False 5764607523034235 (- 59)"
  by (simp add: d_lit_def fp_eval)

lemma d_lit_1_1000: "d_lit 1 1000 = Fin False 4611686018427388 (- 62)"
  by (simp add: d_lit_def fp_eval)

lemma d_lit_2_100: "d_lit 2 100 = Fin False 5764607523034235 (- 58)"
  by (simp add: d_lit_def fp_eval)

lemma d_lit_15_1000: "d_lit 15 1000 = Fin False 8646911284551352 (- 59)"
  by (simp add: d_lit_def fp_eval)

lemma d_lit_981_100: "d_lit 981 100 = Fin False 5522539043063071 (- 49)"
  by (simp add: d_lit_def fp_eval)

lemma d_lit_Suc_0_10: "d_lit (Suc 0) 10 = Fin False 7205759403792794 (- 56)"
  by (simp add: d_lit_def fp_eval)

lemma d_lit_Suc_0_100: "d_lit (Suc 0) 100 = Fin False 5764607523034235 (- 59)"
  by (simp add: d_lit_def fp_eval)

lemma d_lit_Suc_0_1000: "d_lit (Suc 0) 1000 = Fin False 4611686018427388 (- 62)"
  by (simp add: d_lit_def fp_eval)

lemma M_PI_eq: "M_PI = Fin False 7074237752028440 (- 51)"
  by (simp add: M_PI_def d_lit_def fp_eval)

lemma GRAVITY_eq: "GRAVITY = Fin False 5522539043063071 (- 49)"
  by (simp add: GRAVITY_def d_lit_981_100)

lemmas lits = d_zero_def d_of_nat_1 d_of_nat_2 d_of_nat_5 d_of_nat_10 d_of_nat_50 d_of_nat_60 d_of_nat_64 d_of_nat_1000 d_of_nat_2000 d_of_nat_1000000 d_of_nat_Suc_0 d_lit_1_10 d_lit_1_100 d_lit_1_1000 d_lit_2_100 d_lit_15_1000 d_lit_981_100 d_lit_Suc_0_10 d_lit_Suc_0_100 d_lit_Suc_0_1000 M_PI_eq GRAVITY_eq


text \<open>
  Some well-known doubles, as checks of the arithmetic: the double 0.1; \<^verbatim>\<open>M_PI\<close>;
  \<open>0.1 + 0.2\<close>, which is \<open>0.30000000000000004\<close> and not the double 0.3; \<open>1 / 3\<close>; a tie,
  \<open>2\<^sup>5\<^sup>3 + 1\<close>, rounded to the even neighbour; overflow to infinity and underflow to
  zero; and the operations that have no value.
\<close>

lemma known_values:
  "valof (d_lit 1 10) = 3602879701896397 / 36028797018963968"
  "valof (d_of_nat 2000) = 2000"
  "valof (d_of_nat 64) = 64"
  "valof M_PI = 884279719003555 / 281474976710656"
  by (simp_all add: lits)

lemma known_sums:
  "dadd (d_lit 1 10) (d_lit 2 10) = Fin False 5404319552844596 (- 54)"
  "d_lit 3 10 = Fin False 5404319552844595 (- 54)"
  "dadd (Fin False 4503599627370496 1) (d_of_nat 1) = Fin False 4503599627370496 1"
  "dadd (Fin False 4503599627370498 1) (d_of_nat 1) = Fin False 4503599627370498 1"
  "dadd (d_of_nat 1) (Fin True 4503599627370496 (- 52)) = d_zero"
  by (simp_all add: d_lit_def lits fp_eval)

lemma known_quotients:
  "ddiv (d_of_nat 1) (Fin False 6755399441055744 (- 51)) = Fin False 6004799503160661 (- 54)"
  "ddiv (d_of_nat 1) d_zero = Inf False"
  "ddiv (d_of_nat 1) (Fin True 0 (- 1074)) = Inf True"
  "ddiv d_zero d_zero = NaN"
  by (simp_all add: lits fp_eval)

lemma known_products:
  "dmul (Fin False 9007199254740991 971) (Fin False 9007199254740991 971) = Inf False"
  "dmul (Fin False 4503599627370496 (- 652)) (Fin False 4503599627370496 (- 652)) = d_zero"
  "dmul (Inf False) d_zero = NaN"
  "dmul (Fin True 4503599627370496 (- 52)) d_zero = Fin True 0 (- 1074)"
  by (simp_all add: lits fp_eval)

section \<open>The scenario compiled into \<^verbatim>\<open>main\<close>\<close>

text \<open>
  With the pipe and flow rate of \<^verbatim>\<open>main\<close> the velocity is about 1.273 m/s, the
  Reynolds number about 127324 (turbulent) and the head loss about 0.826 m, whatever
  the velocity stored in the pipe before.
\<close>

lemma S1_head_loss:
  "calculate_head_loss
     \<lparr>length_m = d_of_nat 50, diameter = d_lit 1 10, roughness = r, velocity = v,
      density = d_of_nat 1000\<rparr> (d_lit 1 100) =
   (Fin False 7442365665995839 (- 53),
    \<lparr>length_m = d_of_nat 50, diameter = d_lit 1 10, roughness = r,
     velocity = Fin False 5734161139222658 (- 52), density = d_of_nat 1000\<rparr>)"
  by (simp add: calculate_head_loss_unfold Let_def calculate_friction_factor_def pow2_def lits fp_eval)

lemma S1_increment:
  "dmul (ddiv (d_lit 1 100) (dmul M_PI (pow2 (d_of_nat 1)))) (d_of_nat 1) =
   Fin False 7339726258205004 (- 61)"
  by (simp add: pow2_def lits fp_eval)

lemma S1_power:
  "dmul (dmul (dmul (d_of_nat 1000) GRAVITY) (d_lit 1 100)) (d_of_nat 10) =
   Fin False 8628967254786049 (- 43)"
  by (simp add: lits fp_eval)


text \<open>
  Hence every tick of that scenario is a flow tick: the level rises by the rounded
  increment, about 0.003183 m, unless it is clamped, and the power is set.
\<close>

lemma simulate_loop_step:
  "dlt t dur \<Longrightarrow>
   simulate_loop slp dur dt (w, t, tank, pump, pipe, out) =
     (case update_tank tank pump pipe dt of (tank', pump', pipe', notices) \<Rightarrow>
        simulate_loop slp dur dt
          (slp (dmul dt (d_of_nat 1000000)) w, dadd t dt, tank', pump', pipe',
           out @ notices @
             [Observation t (water_level tank') (flow_rate pump') (power_w pump')]))"
  by (subst simulate_loop.simps) simp

lemma simulate_loop_exit:
  "\<not> dlt t dur \<Longrightarrow>
   simulate_loop slp dur dt (w, t, tank, pump, pipe, out) = Some (w, tank, pump, pipe, out)"
  by (subst simulate_loop.simps) simp

lemma S1_tick:
  "update_tank
     \<lparr>height = d_of_nat 5, radius = d_of_nat 1, water_level = h\<rparr>
     \<lparr>flow_rate = d_lit 1 100, head = d_of_nat 10, power_w = p\<rparr>
     \<lparr>length_m = d_of_nat 50, diameter = d_lit 1 10, roughness = r, velocity = v,
      density = d_of_nat 1000\<rparr>
     (d_of_nat 1) =
   (\<lparr>height = d_of_nat 5, radius = d_of_nat 1,
     water_level =
       (if dgt (dadd h (Fin False 7339726258205004 (- 61))) (d_of_nat 5) then d_of_nat 5
        else dadd h (Fin False 7339726258205004 (- 61)))\<rparr>,
    \<lparr>flow_rate = d_lit 1 100, head = d_of_nat 10,
     power_w = Fin False 8628967254786049 (- 43)\<rparr>,
    \<lparr>length_m = d_of_nat 50, diameter = d_lit 1 10, roughness = r,
     velocity = Fin False 5734161139222658 (- 52), density = d_of_nat 1000\<rparr>,
    if dgt (dadd h (Fin False 7339726258205004 (- 61))) (d_of_nat 5) then [Overflow] else [])"
proof -
  have "\<not> dlt (d_of_nat 10) (Fin False 7442365665995839 (- 53))"
    by (simp add: lits)
  then show ?thesis
    by (simp add: update_tank_flow_eq S1_head_loss S1_increment S1_power calculate_pump_power_def
          del: One_nat_def)
qed

lemmas S1_tick_nf = S1_tick [unfolded lits]
section \<open>The loop of the driver\<close>

lemma obs_count_append: "obs_count (xs @ ys) = obs_count xs + obs_count ys"
  by (simp add: obs_count_def)

lemma update_tank_notices:
  "update_tank tank pump pipe dt = (tank', pump', pipe', notices) \<Longrightarrow> obs_count notices = 0"
  by (auto simp: update_tank_unfold case_prod_beta Let_def obs_count_def split: if_splits)

lemma simulate_loop_count:
  "(\<And>j. j < n \<Longrightarrow> dlt (time_after dt (i + j)) dur) \<Longrightarrow>
   \<not> dlt (time_after dt (i + n)) dur \<Longrightarrow>
   \<exists>w' tank' pump' pipe' out'.
     simulate_loop slp dur dt (w, time_after dt i, tank, pump, pipe, out) =
       Some (w', tank', pump', pipe', out') \<and>
     obs_count out' = obs_count out + n"
proof (induction n arbitrary: i w tank pump pipe out)
  case 0
  then show ?case by (simp add: simulate_loop_exit)
next
  case (Suc n)
  obtain tank1 pump1 pipe1 notices where
    u: "update_tank tank pump pipe dt = (tank1, pump1, pipe1, notices)"
    by (cases "update_tank tank pump pipe dt") auto
  have now: "dlt (time_after dt i) dur" using Suc.prems(1) [of 0] by simp
  have later: "\<And>j. j < n \<Longrightarrow> dlt (time_after dt (Suc i + j)) dur"
    using Suc.prems(1) by (metis Suc_less_eq add_Suc_shift)
  have stop: "\<not> dlt (time_after dt (Suc i + n)) dur" using Suc.prems(2) by simp
  let ?out = "out @ notices @
    [Observation (time_after dt i) (water_level tank1) (flow_rate pump1) (power_w pump1)]"
  obtain w' tank' pump' pipe' out' where
    r: "simulate_loop slp dur dt
          (slp (dmul dt (d_of_nat 1000000)) w, time_after dt (Suc i), tank1, pump1, pipe1, ?out) =
        Some (w', tank', pump', pipe', out')"
    and c: "obs_count out' = obs_count ?out + n"
    using Suc.IH [OF later stop] by blast
  have "simulate_loop slp dur dt (w, time_after dt i, tank, pump, pipe, out) =
        Some (w', tank', pump', pipe', out')"
    using now u r by (simp add: simulate_loop_step)
  moreover have "obs_count out' = obs_count out + Suc n"
    using c update_tank_notices [OF u] by (simp add: obs_count_append obs_count_def)
  ultimately show ?case by blast
qed

text \<open>The world outside does not influence the program.\<close>

lemma simulate_loop_world:
  assumes "simulate_loop slp1 dur1 dt1 st1 = Some r1"
  shows "\<forall>w2. \<exists>w2'. simulate_loop slp2 dur1 dt1 (w2, snd st1) = Some (w2', snd r1)"
proof (rule simulate_loop.raw_induct
    [where P = "\<lambda>slp dur dt st r.
       \<forall>w2. \<exists>w2'. simulate_loop slp2 dur dt (w2, snd st) = Some (w2', snd r)", OF _ assms])
  fix f slp dur dt st r
  assume IH: "\<And>slp dur dt st r. f slp dur dt st = Some r \<Longrightarrow>
      \<forall>w2. \<exists>w2'. simulate_loop slp2 dur dt (w2, snd st) = Some (w2', snd r)"
    and step: "(case st of
        (w, current_time, tank, pump, pipe, out) \<Rightarrow>
          if dlt current_time dur
          then case update_tank tank pump pipe dt of
               (tank', pump', pipe', notices) \<Rightarrow>
                 f slp dur dt
                  (slp (dmul dt (d_of_nat 1000000)) w, dadd current_time dt, tank', pump', pipe',
                   out @ notices @
                   [Observation current_time (water_level tank') (flow_rate pump')
                     (power_w pump')])
          else Some (w, tank, pump, pipe, out)) = Some r"
  obtain w t tank pump pipe out where st: "st = (w, t, tank, pump, pipe, out)"
    by (cases st) auto
  show "\<forall>w2. \<exists>w2'. simulate_loop slp2 dur dt (w2, snd st) = Some (w2', snd r)"
  proof (cases "dlt t dur")
    case False
    then show ?thesis using step st by (auto simp: simulate_loop_exit)
  next
    case True
    obtain tank1 pump1 pipe1 notices where
      u: "update_tank tank pump pipe dt = (tank1, pump1, pipe1, notices)"
      by (cases "update_tank tank pump pipe dt") auto
    let ?out = "out @ notices @
      [Observation t (water_level tank1) (flow_rate pump1) (power_w pump1)]"
    have "f slp dur dt
            (slp (dmul dt (d_of_nat 1000000)) w, dadd t dt, tank1, pump1, pipe1, ?out) = Some r"
      using step st True u by simp
    then have next_run: "\<forall>w2. \<exists>w2'. simulate_loop slp2 dur dt
         (w2, dadd t dt, tank1, pump1, pipe1, ?out) = Some (w2', snd r)"
      using IH by fastforce
    show ?thesis
    proof
      fix w2
      obtain w2' where "simulate_loop slp2 dur dt
         (slp2 (dmul dt (d_of_nat 1000000)) w2, dadd t dt, tank1, pump1, pipe1, ?out) =
         Some (w2', snd r)"
        using next_run by blast
      then show "\<exists>w2'. simulate_loop slp2 dur dt (w2, snd st) = Some (w2', snd r)"
        using st True u by (auto simp: simulate_loop_step)
    qed
  qed
qed

lemma outcome_world:
  "outcome (simulate_loop slp1 dur dt (w1, st)) = outcome (simulate_loop slp2 dur dt (w2, st))"
proof (cases "simulate_loop slp1 dur dt (w1, st)")
  case None
  show ?thesis
  proof (cases "simulate_loop slp2 dur dt (w2, st)")
    case n2: None
    then show ?thesis using None by (simp add: outcome_def)
  next
    case (Some r2)
    have "\<exists>w'. simulate_loop slp1 dur dt (w1, snd (w2, st)) = Some (w', snd r2)"
      using simulate_loop_world [OF Some, of slp1] by blast
    then show ?thesis using None by simp
  qed
next
  case (Some r1)
  have "\<exists>w'. simulate_loop slp2 dur dt (w2, snd (w1, st)) = Some (w', snd r1)"
    using simulate_loop_world [OF Some, of slp2] by blast
  then show ?thesis using Some by (auto simp: outcome_def)
qed

lemma printed_outcome:
  "printed r = map_option (\<lambda>(tank, pump, pipe, out). out) (outcome r)"
  by (cases r) (auto simp: printed_def outcome_def)
lemma dlt_finite: "is_finite x \<Longrightarrow> is_finite y \<Longrightarrow> dlt x y \<longleftrightarrow> valof x < valof y"
  by (cases x; cases y) (simp_all del: valof.simps)

lemma valof_pos_finite: "0 < valof x \<Longrightarrow> is_finite x"
  by (cases x) simp_all

lemma obs_count_header: "obs_count [Header, Rule] = 0"
  by (simp add: obs_count_def)

lemma less_9_cases:
  "j < 9 \<Longrightarrow> j = 0 \<or> j = 1 \<or> j = 2 \<or> j = 3 \<or> j = 4 \<or> j = 5 \<or> j = 6 \<or> j = 7 \<or> j = (8::nat)"
  by arith

lemma time_after_numeral:
  "time_after dt (numeral k) = dadd (time_after dt (pred_numeral k)) dt"
  by (simp add: numeral_eq_Suc)

lemma time_after_1: "time_after dt 1 = dadd d_zero dt"
  by simp

lemma le_5_cases:
  "i \<le> 5 \<Longrightarrow> i = 0 \<or> i = 1 \<or> i = 2 \<or> i = 3 \<or> i = 4 \<or> i = (5::nat)"
  by arith

lemma zero_flow_head_loss:
  "calculate_head_loss
     \<lparr>length_m = d_of_nat 50, diameter = d_lit 1 10, roughness = r, velocity = v,
      density = d_of_nat 1000\<rparr> d_zero =
   (NaN,
    \<lparr>length_m = d_of_nat 50, diameter = d_lit 1 10, roughness = r,
     velocity = d_zero, density = d_of_nat 1000\<rparr>)"
  by (simp add: calculate_head_loss_unfold Let_def calculate_friction_factor_def pow2_def lits fp_eval)

text \<open>The whole run of \<^verbatim>\<open>main\<close>, evaluated tick by tick.\<close>

lemma S1_run:
  "case simulate_system slp w main_pump main_pipe main_tank (d_of_nat 60) (d_of_nat 1) of
     None \<Rightarrow> False
   | Some (w', tank, pump, pipe, out) \<Rightarrow>
       length out = 62 \<and>
       (case out ! 2 of
          Observation t h q p \<Rightarrow>
            t = d_zero \<and> \<bar>valof h - 3183 / 1000000\<bar> < 5 / 10000000 \<and>
            \<bar>valof p - 981\<bar> \<le> 1 / 2 ^ 43
        | _ \<Rightarrow> False) \<and>
       (case out ! 61 of
          Observation t h q p \<Rightarrow>
            t = d_of_nat 59 \<and> h = water_level tank \<and> \<bar>valof h - 1910 / 10000\<bar> < 5 / 100000
        | _ \<Rightarrow> False) \<and>
       NoFlow \<notin> set out \<and> Overflow \<notin> set out \<and> obs_count out = 60 \<and>
       height tank = height main_tank \<and> dlt (water_level tank) (height main_tank)"
  by (simp add: simulate_system_def main_pump_def main_pipe_def main_tank_def lits S1_tick_nf
     simulate_loop_step simulate_loop_exit fp_eval dgt_def obs_count_def d_of_nat_def)


section \<open>The claims\<close>

text \<open>
  Throughout, the arithmetic of the specification is the arithmetic of the program:
  \<open>dadd\<close>, \<open>dmul\<close> and \<open>ddiv\<close> are the binary64 operations, \<open>dlt\<close>, \<open>dle\<close>, \<open>dgt\<close> and
  \<open>dge\<close> the comparisons of C, \<open>d_lit p q\<close> the literal with the decimal value \<open>p / q\<close>.
  Where a claim is about the value computed through \<^verbatim>\<open>pow\<close> (C2 and C5), it is stated
  for the functions that take the square of the C library as a parameter.
\<close>

subsection \<open>C1: the level stays within the tank\<close>

text \<open>
  Claim C1 says that a tick started with \<open>0 \<le> h \<le> H\<^sub>t\<close>, \<open>Q \<ge> 0\<close> and \<open>\<Delta>t > 0\<close> ends with
  \<open>0 \<le> h \<le> H\<^sub>t\<close>.  As stated it fails when the increment \<open>(Q / A\<^sub>t) \<sqdot> \<Delta>t\<close> is not a
  number: with no flow (\<open>Q = 0\<close>) and a tank radius of \<open>2\<^sup>-\<^sup>6\<^sup>0\<^sup>0\<close> m, which is positive, the
  area \<open>\<pi> \<sqdot> r\<^sup>2\<close> underflows to zero, \<open>0 / 0\<close> is NaN, the comparison with the tank height
  is false for a NaN, and the level becomes NaN.
\<close>

theorem update_tank_level_nan:
  "dle d_zero (water_level (main_tank\<lparr>radius := Fin False 4503599627370496 (- 652)\<rparr>)) \<and>
   dle (water_level (main_tank\<lparr>radius := Fin False 4503599627370496 (- 652)\<rparr>))
       (height (main_tank\<lparr>radius := Fin False 4503599627370496 (- 652)\<rparr>)) \<and>
   dle d_zero (flow_rate (main_pump\<lparr>flow_rate := d_zero\<rparr>)) \<and>
   dlt d_zero (d_of_nat 1) \<and>
   dlt d_zero (radius (main_tank\<lparr>radius := Fin False 4503599627370496 (- 652)\<rparr>)) \<and>
   water_level (fst (update_tank (main_tank\<lparr>radius := Fin False 4503599627370496 (- 652)\<rparr>)
                       (main_pump\<lparr>flow_rate := d_zero\<rparr>) main_pipe (d_of_nat 1))) = NaN \<and>
   \<not> dle d_zero
       (water_level (fst (update_tank (main_tank\<lparr>radius := Fin False 4503599627370496 (- 652)\<rparr>)
                       (main_pump\<lparr>flow_rate := d_zero\<rparr>) main_pipe (d_of_nat 1))))"
proof -
  have "\<not> dlt (d_of_nat 10) NaN" by (simp add: lits)
  then have "water_level (fst (update_tank (main_tank\<lparr>radius := Fin False 4503599627370496 (- 652)\<rparr>)
                       (main_pump\<lparr>flow_rate := d_zero\<rparr>) main_pipe (d_of_nat 1))) = NaN"
    by (simp add: update_tank_flow_eq main_tank_def main_pump_def main_pipe_def
          zero_flow_head_loss [unfolded lits] pow2_def dgt_def lits fp_eval)
  then show ?thesis
    by (simp add: main_tank_def main_pump_def lits)
qed

text \<open>
  C1 as amended: if moreover the increment \<open>(Q / A\<^sub>t) \<sqdot> \<Delta>t\<close> computed by the tick is
  not NaN, then the level after the tick is between 0 and the tank height, whether or
  not the pump overcomes the head loss.  The increment is not NaN whenever \<open>Q\<close> and
  \<open>\<Delta>t\<close> are finite and the area \<open>\<pi> \<sqdot> r\<^sup>2\<close> is neither NaN nor zero
  (\<open>increment_not_nan\<close>).
\<close>

theorem update_tank_level_in_range:
  assumes h0: "dle d_zero (water_level tank)"
    and hH: "dle (water_level tank) (height tank)"
    and q: "dle d_zero (flow_rate pump)"
    and dt: "dlt d_zero time_step"
    and inc: "\<not> is_nan (dmul (ddiv (flow_rate pump) (dmul M_PI (pow2 (radius tank)))) time_step)"
  shows "dle d_zero (water_level (fst (update_tank tank pump pipe time_step))) \<and>
         dle (water_level (fst (update_tank tank pump pipe time_step)))
             (height (fst (update_tank tank pump pipe time_step)))"
proof (cases "dlt (head pump) (fst (calculate_head_loss pipe (flow_rate pump)))")
  case True
  then show ?thesis using h0 hH by (simp add: update_tank_no_flow_eq)
next
  case False
  let ?area = "dmul M_PI (pow2 (radius tank))"
  let ?inc = "dmul (ddiv (flow_rate pump) ?area) time_step"
  let ?level = "dadd (water_level tank) ?inc"
  have "\<not> is_nan (ddiv (flow_rate pump) ?area)" using inc dmul_not_nan by blast
  then have "\<not> is_nan ?area" using ddiv_not_nan by blast
  then have "has_sign False ?area" by (rule tank_area_sign)
  moreover have "nonneg (flow_rate pump)" using q by (simp add: dle_zero_iff)
  ultimately have "nonneg (ddiv (flow_rate pump) ?area)"
    using nonneg_ddiv \<open>\<not> is_nan (ddiv (flow_rate pump) ?area)\<close> by blast
  moreover have "nonneg time_step" using dt by (cases time_step) (auto simp: dlt_zero_iff)
  ultimately have "nonneg ?inc" using nonneg_dmul inc by blast
  moreover have "nonneg (water_level tank)" using h0 by (simp add: dle_zero_iff)
  ultimately have level: "nonneg ?level" by (simp add: nonneg_dadd)
  have height: "\<not> is_nan (height tank)" using hH dle_not_nan by blast
  show ?thesis
  proof (cases "dgt ?level (height tank)")
    case True
    have "dle d_zero (height tank)" using h0 hH by (rule dle_trans)
    moreover have "dle (height tank) (height tank)" using height by (rule dle_refl)
    ultimately show ?thesis using True False by (simp add: update_tank_flow_eq)
  next
    case full: False
    then have "\<not> dlt (height tank) ?level" by (simp add: dgt_def)
    then have "dle ?level (height tank)"
      using height level nonneg_not_nan not_dlt_dle by blast
    moreover have "dle d_zero ?level" using level by (simp add: dle_zero_iff)
    ultimately show ?thesis using full False by (simp add: update_tank_flow_eq)
  qed
qed

theorem update_tank_level_in_range_witness:
  "dle d_zero (water_level main_tank) \<and>
   dle (water_level main_tank) (height main_tank) \<and>
   dle d_zero (flow_rate main_pump) \<and>
   dlt d_zero (d_of_nat 1) \<and>
   \<not> is_nan (dmul (ddiv (flow_rate main_pump) (dmul M_PI (pow2 (radius main_tank)))) (d_of_nat 1)) \<and>
   dle d_zero (water_level (fst (update_tank main_tank main_pump main_pipe (d_of_nat 1)))) \<and>
   dle (water_level (fst (update_tank main_tank main_pump main_pipe (d_of_nat 1))))
       (height (fst (update_tank main_tank main_pump main_pipe (d_of_nat 1))))"
proof -
  have h0: "dle d_zero (water_level main_tank)" by (simp add: main_tank_def lits)
  have hH: "dle (water_level main_tank) (height main_tank)" by (simp add: main_tank_def lits)
  have q: "dle d_zero (flow_rate main_pump)" by (simp add: main_pump_def lits)
  have dt: "dlt d_zero (d_of_nat 1)" by (simp add: lits)
  have inc: "\<not> is_nan (dmul (ddiv (flow_rate main_pump) (dmul M_PI (pow2 (radius main_tank))))
                         (d_of_nat 1))"
    by (simp add: main_pump_def main_tank_def S1_increment [unfolded lits] lits)
  show ?thesis
    using update_tank_level_in_range [OF h0 hH q dt inc, of main_pipe] h0 hH q dt inc
    by simp
qed

subsection \<open>C2: a flow tick adds the full inflow\<close>

text \<open>
  Claim C2: in a tick with \<open>pump.H \<ge> h\<^sub>f\<close> in which the clamp is not triggered, the level
  becomes \<open>h + (Q / A\<^sub>t) \<sqdot> \<Delta>t\<close> with \<open>A\<^sub>t = \<pi> \<sqdot> r\<^sup>2\<close>, computed from the full flow rate of
  the pump, and no notice is printed.  The sum, the product and the quotient are the
  binary64 operations, and the square \<open>r\<^sup>2\<close> is \<open>sq r\<close>, what \<^verbatim>\<open>pow(r, 2)\<close> of the C
  library in use returns: the statement holds for every such function \<open>sq\<close>, correctly
  rounded or not, with the head loss \<open>h\<^sub>f\<close> of the tick computed with the same \<open>sq\<close>.
\<close>

theorem update_tank_flow_increment:
  assumes "dge (head pump) (fst (calculate_head_loss_pow sq pipe (flow_rate pump)))"
    and "\<not> dgt (dadd (water_level tank)
                  (dmul (ddiv (flow_rate pump) (dmul M_PI (sq (radius tank)))) time_step))
              (height tank)"
  shows "water_level (fst (update_tank_pow sq tank pump pipe time_step)) =
           dadd (water_level tank)
             (dmul (ddiv (flow_rate pump) (dmul M_PI (sq (radius tank)))) time_step) \<and>
         snd (snd (snd (update_tank_pow sq tank pump pipe time_step))) = []"
  using assms dge_not_dlt [OF assms(1)]
  by (simp add: update_tank_pow_def case_prod_beta Let_def)

theorem update_tank_flow_increment_witness:
  "dge (head main_pump) (fst (calculate_head_loss_pow pow2 main_pipe (flow_rate main_pump))) \<and>
   \<not> dgt (dadd (water_level main_tank)
            (dmul (ddiv (flow_rate main_pump) (dmul M_PI (pow2 (radius main_tank)))) (d_of_nat 1)))
          (height main_tank) \<and>
   water_level (fst (update_tank_pow pow2 main_tank main_pump main_pipe (d_of_nat 1))) =
     dadd (water_level main_tank)
       (dmul (ddiv (flow_rate main_pump) (dmul M_PI (pow2 (radius main_tank)))) (d_of_nat 1)) \<and>
   snd (snd (snd (update_tank_pow pow2 main_tank main_pump main_pipe (d_of_nat 1)))) = []"
proof -
  have a: "dge (head main_pump)
             (fst (calculate_head_loss_pow pow2 main_pipe (flow_rate main_pump)))"
    by (simp add: calculate_head_loss_def [symmetric] main_pump_def main_pipe_def
          S1_head_loss [unfolded lits] dge_def lits)
  have b: "\<not> dgt (dadd (water_level main_tank)
            (dmul (ddiv (flow_rate main_pump) (dmul M_PI (pow2 (radius main_tank)))) (d_of_nat 1)))
          (height main_tank)"
    by (simp add: main_pump_def main_tank_def S1_increment [unfolded lits] dgt_def lits fp_eval)
  show ?thesis
    using update_tank_flow_increment [OF a b] a b by simp
qed

subsection \<open>C3: a tick without flow changes the pipe velocity only\<close>

text \<open>
  Claim C3: in a tick with \<open>pump.H < h\<^sub>f\<close> the no-flow notice is printed and the tank
  and the pump (its power included) are returned as they were; only the velocity of
  the pipe is written.  The condition is local to the tick: nothing is remembered,
  since any later call behaves on the pipe left behind exactly as on the pipe before.
\<close>

theorem update_tank_no_flow:
  assumes "dlt (head pump) (fst (calculate_head_loss pipe (flow_rate pump)))"
  shows "update_tank tank pump pipe time_step =
           (tank, pump,
            pipe\<lparr>velocity :=
              ddiv (flow_rate pump) (dmul M_PI (pow2 (ddiv (diameter pipe) (d_of_nat 2))))\<rparr>,
            [NoFlow]) \<and>
         update_tank tank2 pump2
           (pipe\<lparr>velocity :=
              ddiv (flow_rate pump) (dmul M_PI (pow2 (ddiv (diameter pipe) (d_of_nat 2))))\<rparr>)
           time_step2 =
         update_tank tank2 pump2 pipe time_step2"
proof
  show "update_tank tank pump pipe time_step =
           (tank, pump,
            pipe\<lparr>velocity :=
              ddiv (flow_rate pump) (dmul M_PI (pow2 (ddiv (diameter pipe) (d_of_nat 2))))\<rparr>,
            [NoFlow])"
    using assms by (simp add: update_tank_no_flow_eq calculate_head_loss_snd)
next
  show "update_tank tank2 pump2
           (pipe\<lparr>velocity :=
              ddiv (flow_rate pump) (dmul M_PI (pow2 (ddiv (diameter pipe) (d_of_nat 2))))\<rparr>)
           time_step2 =
         update_tank tank2 pump2 pipe time_step2"
    by (simp add: update_tank_unfold case_prod_beta calculate_head_loss_unfold Let_def calculate_pump_power_def)
qed

theorem update_tank_no_flow_witness:
  "dlt (head (main_pump\<lparr>head := d_lit 1 100\<rparr>))
       (fst (calculate_head_loss main_pipe (flow_rate (main_pump\<lparr>head := d_lit 1 100\<rparr>)))) \<and>
   update_tank main_tank (main_pump\<lparr>head := d_lit 1 100\<rparr>) main_pipe (d_of_nat 1) =
     (main_tank, main_pump\<lparr>head := d_lit 1 100\<rparr>,
      main_pipe\<lparr>velocity :=
        ddiv (flow_rate (main_pump\<lparr>head := d_lit 1 100\<rparr>))
          (dmul M_PI (pow2 (ddiv (diameter main_pipe) (d_of_nat 2))))\<rparr>,
      [NoFlow])"
proof -
  have a: "dlt (head (main_pump\<lparr>head := d_lit 1 100\<rparr>))
       (fst (calculate_head_loss main_pipe (flow_rate (main_pump\<lparr>head := d_lit 1 100\<rparr>))))"
    by (simp add: main_pump_def main_pipe_def S1_head_loss [unfolded lits] lits)
  show ?thesis
    using update_tank_no_flow [OF a, of main_tank "d_of_nat 1"] a by simp
qed

subsection \<open>C4: the friction factor\<close>

text \<open>
  Claim C4: \<^verbatim>\<open>calculate_friction_factor\<close> returns \<open>64 / Re\<close> when \<open>Re < 2000\<close> and the
  constant 0.02 when \<open>Re \<ge> 2000\<close>.
\<close>

theorem calculate_friction_factor_cases:
  "(dlt re (d_of_nat 2000) \<longrightarrow> calculate_friction_factor re = ddiv (d_of_nat 64) re) \<and>
   (dge re (d_of_nat 2000) \<longrightarrow> calculate_friction_factor re = d_lit 2 100)"
  using dge_not_dlt [of re "d_of_nat 2000"] by (auto simp: calculate_friction_factor_def)

theorem calculate_friction_factor_cases_witness:
  "dlt (d_of_nat 1000) (d_of_nat 2000) \<and>
   calculate_friction_factor (d_of_nat 1000) = ddiv (d_of_nat 64) (d_of_nat 1000) \<and>
   dge (d_of_nat 2000) (d_of_nat 2000) \<and>
   calculate_friction_factor (d_of_nat 2000) = d_lit 2 100"
proof -
  have a: "dlt (d_of_nat 1000) (d_of_nat 2000)" by (simp add: lits)
  have b: "dge (d_of_nat 2000) (d_of_nat 2000)" by (simp add: dge_def lits)
  show ?thesis
    using calculate_friction_factor_cases [of "d_of_nat 1000"]
      calculate_friction_factor_cases [of "d_of_nat 2000"] a b
    by blast
qed

subsection \<open>C5: the head loss\<close>

text \<open>
  Claim C5: \<^verbatim>\<open>calculate_head_loss\<close> computes \<open>v = Q / A\<close> with \<open>A = \<pi> \<sqdot> (D / 2)\<^sup>2\<close>, then
  \<open>Re = \<rho> \<sqdot> v \<sqdot> D / 0.001\<close>, then the friction factor \<open>f\<close> of \<open>Re\<close>, and returns
  \<open>f \<sqdot> (L / D) \<sqdot> v\<^sup>2 / (2 \<sqdot> 9.81)\<close>; the only field it writes is the velocity of the
  pipe; and the result is the same for every pipe with the same length, diameter and
  density, whatever its roughness and its velocity before the call.  The two squares
  are \<open>sq (D / 2)\<close> and \<open>sq v\<close>, what \<^verbatim>\<open>pow(x, 2)\<close> of the C library in use returns: the
  statement holds for every such function \<open>sq\<close>, correctly rounded or not.
\<close>

theorem calculate_head_loss_spec:
  "calculate_head_loss_pow sq pipe q =
     (let area = dmul M_PI (sq (ddiv (diameter pipe) (d_of_nat 2)));
          v = ddiv q area;
          re = ddiv (dmul (dmul (density pipe) v) (diameter pipe)) (d_lit 1 1000);
          f = calculate_friction_factor re
      in (ddiv (dmul (dmul f (ddiv (length_m pipe) (diameter pipe))) (sq v))
               (dmul (d_of_nat 2) (d_lit 981 100)),
          pipe\<lparr>velocity := v\<rparr>)) \<and>
   fst (calculate_head_loss_pow sq
          \<lparr>length_m = length_m pipe, diameter = diameter pipe, roughness = r',
           velocity = v', density = density pipe\<rparr> q) =
   fst (calculate_head_loss_pow sq pipe q)"
  by (simp add: calculate_head_loss_pow_def Let_def GRAVITY_def)

subsection \<open>C6: the pump power\<close>

text \<open>
  Claim C6: \<^verbatim>\<open>calculate_pump_power\<close> returns \<open>\<rho> \<sqdot> 9.81 \<sqdot> Q \<sqdot> H\<close>, multiplied from
  left to right.  It returns a number and no record, and the number depends on the
  density, the flow rate and the head of the pump only: not on the pipe otherwise,
  hence not on the head loss, and not on the power stored before.
\<close>

theorem calculate_pump_power_spec:
  "calculate_pump_power pump pipe =
     dmul (dmul (dmul (density pipe) (d_lit 981 100)) (flow_rate pump)) (head pump) \<and>
   calculate_pump_power
     \<lparr>flow_rate = flow_rate pump, head = head pump, power_w = p'\<rparr>
     \<lparr>length_m = l', diameter = d', roughness = r', velocity = v', density = density pipe\<rparr> =
   calculate_pump_power pump pipe"
  by (simp add: calculate_pump_power_def GRAVITY_def)

subsection \<open>C7: zero flow\<close>

text \<open>
  Claim C7 says that with \<open>Q = 0\<close> the head loss is 0 and nothing is divided by zero.
  The program has no such guard.  For the pipe of \<^verbatim>\<open>main\<close> and \<open>Q = 0\<close>: the velocity
  written is 0, the Reynolds number is 0, which is below 2000, so the laminar branch
  divides 64 by zero and the friction factor is \<open>+\<infinity>\<close>; the head loss is
  \<open>\<infinity> \<sqdot> 500 \<sqdot> 0 / 19.62\<close>, which is NaN and not 0.
\<close>

theorem zero_flow_divides_by_zero:
  "snd (calculate_head_loss main_pipe d_zero) = main_pipe\<lparr>velocity := d_zero\<rparr> \<and>
   ddiv (dmul (dmul (density main_pipe) d_zero) (diameter main_pipe)) (d_lit 1 1000) = d_zero \<and>
   dlt d_zero (d_of_nat 2000) \<and>
   calculate_friction_factor d_zero = ddiv (d_of_nat 64) d_zero \<and>
   ddiv (d_of_nat 64) d_zero = Inf False \<and>
   fst (calculate_head_loss main_pipe d_zero) = NaN"
  by (simp add: main_pipe_def zero_flow_head_loss [unfolded lits] calculate_friction_factor_def
        lits fp_eval)

subsection \<open>C8: the number of observation lines\<close>

text \<open>
  Claim C8 says that a run over a duration that is \<open>k\<close> times the time step prints
  \<open>k\<close> observation lines.  The loop compares the rounded sums of the time step with
  the duration, and rounding can leave the \<open>k\<close>-th sum below \<open>k \<sqdot> \<Delta>t\<close>: for
  \<open>\<Delta>t = 1 + 2\<^sup>-\<^sup>5\<^sup>1\<close> and the duration \<open>8 \<sqdot> \<Delta>t = 8 + 2\<^sup>-\<^sup>4\<^sup>8\<close>, which is a double, the
  eighth sum is \<open>8 + 2\<^sup>-\<^sup>4\<^sup>9\<close> and the run prints 9 observation lines.
\<close>

theorem simulate_system_extra_line:
  "valof (Fin False 4503599627370498 (- 49)) = 8 * valof (Fin False 4503599627370498 (- 52)) \<and>
   0 < valof (Fin False 4503599627370498 (- 52)) \<and>
   nat \<lceil>valof (Fin False 4503599627370498 (- 49)) / valof (Fin False 4503599627370498 (- 52))\<rceil> = 8 \<and>
   (\<exists>w' tank' pump' pipe' out.
      simulate_system (\<lambda>us w. w) () main_pump main_pipe main_tank
        (Fin False 4503599627370498 (- 49)) (Fin False 4503599627370498 (- 52)) =
        Some (w', tank', pump', pipe', out) \<and>
      obs_count out = 9)"
proof -
  let ?dt = "Fin False 4503599627370498 (- 52)"
  let ?dur = "Fin False 4503599627370498 (- 49)"
  have v: "valof ?dur = 8 * valof ?dt" "0 < valof ?dt" by simp_all
  then have c: "nat \<lceil>valof ?dur / valof ?dt\<rceil> = 8" by simp
  have below: "dlt (time_after ?dt (0 + j)) ?dur" if "j < 9" for j
    using less_9_cases [OF that]
    by (elim disjE) (simp_all add: time_after_numeral time_after_1 lits fp_eval)
  have "\<not> dlt (time_after ?dt (0 + 9)) ?dur"
    by (simp add: time_after_numeral time_after_1 lits fp_eval)
  from simulate_loop_count [of 9 ?dt 0 ?dur, OF below this, of "\<lambda>us w. w" "()" main_tank main_pump main_pipe "[Header, Rule]"]
  have "\<exists>w' tank' pump' pipe' out.
      simulate_system (\<lambda>us w. w) () main_pump main_pipe main_tank ?dur ?dt =
        Some (w', tank', pump', pipe', out) \<and> obs_count out = 9"
    by (simp add: simulate_system_def obs_count_header)
  then show ?thesis using v c by blast
qed

text \<open>
  C8 as amended: when the duration is \<open>k\<close> times the (positive) time step and the
  accumulation is exact, that is, the value of \<^verbatim>\<open>current_time\<close> after \<open>i\<close> iterations is
  \<open>i \<sqdot> \<Delta>t\<close> for every \<open>i \<le> k\<close>, then the run returns and prints exactly
  \<open>k = \<lceil>duration / \<Delta>t\<rceil>\<close> observation lines.
\<close>

theorem simulate_system_line_count:
  assumes dt: "0 < valof time_step"
    and dur: "is_finite simulation_duration"
    and mult: "valof simulation_duration = real k * valof time_step"
    and exact: "\<forall>i\<le>k. is_finite (time_after time_step i) \<and>
                 valof (time_after time_step i) = real i * valof time_step"
  shows "\<exists>w' tank' pump' pipe' out.
           simulate_system sleeper w pump pipe tank simulation_duration time_step =
             Some (w', tank', pump', pipe', out) \<and>
           obs_count out = k \<and>
           k = nat \<lceil>valof simulation_duration / valof time_step\<rceil>"
proof -
  have below: "dlt (time_after time_step (0 + j)) simulation_duration" if "j < k" for j
  proof -
    have "valof (time_after time_step j) < valof simulation_duration"
      using exact that dt mult by simp
    moreover have "is_finite (time_after time_step j)" using exact that by simp
    ultimately show ?thesis using dur by (simp add: dlt_finite)
  qed
  have "\<not> valof (time_after time_step k) < valof simulation_duration"
    using exact mult by simp
  moreover have "is_finite (time_after time_step k)" using exact by simp
  ultimately have stop: "\<not> dlt (time_after time_step (0 + k)) simulation_duration"
    using dur by (simp add: dlt_finite)
  from simulate_loop_count [of k time_step 0 simulation_duration, OF below stop,
      of sleeper w tank pump pipe "[Header, Rule]"]
  have "\<exists>w' tank' pump' pipe' out.
           simulate_system sleeper w pump pipe tank simulation_duration time_step =
             Some (w', tank', pump', pipe', out) \<and> obs_count out = k"
    by (simp add: simulate_system_def obs_count_header)
  moreover have "k = nat \<lceil>valof simulation_duration / valof time_step\<rceil>"
    using dt mult by simp
  ultimately show ?thesis by blast
qed

theorem simulate_system_line_count_witness:
  "0 < valof (d_of_nat 1) \<and> is_finite (d_of_nat 5) \<and>
   valof (d_of_nat 5) = real 5 * valof (d_of_nat 1) \<and>
   (\<exists>w' tank' pump' pipe' out.
      simulate_system (\<lambda>us w. w) () main_pump main_pipe main_tank (d_of_nat 5) (d_of_nat 1) =
        Some (w', tank', pump', pipe', out) \<and>
      obs_count out = 5 \<and>
      5 = nat \<lceil>valof (d_of_nat 5) / valof (d_of_nat 1)\<rceil>)"
proof -
  have dt: "0 < valof (d_of_nat 1)" by (simp add: lits)
  have dur: "is_finite (d_of_nat 5)" by (simp add: lits)
  have mult: "valof (d_of_nat 5) = real 5 * valof (d_of_nat 1)" by (simp add: lits)
  have "is_finite (time_after (d_of_nat 1) i) \<and>
        valof (time_after (d_of_nat 1) i) = real i * valof (d_of_nat 1)" if "i \<le> 5" for i
    using le_5_cases [OF that]
    by (elim disjE) (simp_all add: time_after_numeral time_after_1 lits fp_eval)
  then have exact: "\<forall>i\<le>5. is_finite (time_after (d_of_nat 1) i) \<and>
        valof (time_after (d_of_nat 1) i) = real i * valof (d_of_nat 1)"
    by blast
  show ?thesis
    using simulate_system_line_count [OF dt dur mult exact,
        of "\<lambda>us w. w" "()" main_pump main_pipe main_tank] dt dur mult
    by simp
qed

subsection \<open>C9: the scenario of \<^verbatim>\<open>main\<close>\<close>

text \<open>
  Claim C9: the program as compiled (\<open>Q = 0.01\<close>, \<open>H = 10\<close>, \<open>L = 50\<close>, \<open>D = 0.1\<close>,
  \<open>\<rho> = 1000\<close>, \<open>r = 1\<close>, \<open>H\<^sub>t = 5\<close>, \<open>h\<^sub>0 = 0\<close>, a step of 1 s for 60 s) returns, and prints
  64 lines: the start line, the two header lines, 60 observation lines and the
  completion line, with no notice among them.  The first observation, the state at
  the simulated time 1 s (printed with the time 0 of the start of the tick), has the
  level 0.003183 m to six decimal places and the power 981 W up to the rounding of
  the three multiplications (the double is \<open>981 + 2\<^sup>-\<^sup>4\<^sup>3\<close>, one unit in the last place
  above 981, printed as 981.00); the last one has the level 0.1910 m to the four
  decimal places printed, below the tank height.
\<close>

theorem main_nominal_fill:
  "\<exists>w' out.
     main sleeper w = Some (w', out) \<and> length out = 64 \<and>
     NoFlow \<notin> set out \<and> Overflow \<notin> set out \<and> obs_count out = 60 \<and>
     (\<exists>h q p. out ! 3 = Observation d_zero h q p \<and>
        \<bar>valof h - 3183 / 1000000\<bar> < 5 / 10000000 \<and> \<bar>valof p - 981\<bar> \<le> 1 / 2 ^ 43) \<and>
     (\<exists>h q p. out ! 62 = Observation (d_of_nat 59) h q p \<and>
        \<bar>valof h - 1910 / 10000\<bar> < 5 / 100000 \<and> dlt h (height main_tank))"
proof (cases "simulate_system sleeper w main_pump main_pipe main_tank (d_of_nat 60) (d_of_nat 1)")
  case None
  then show ?thesis using S1_run [of sleeper w] by simp
next
  case (Some r)
  obtain w' tank pump pipe out where r: "r = (w', tank, pump, pipe, out)"
    by (cases r) auto
  have run: "length out = 62 \<and>
       (case out ! 2 of
          Observation t h q p \<Rightarrow>
            t = d_zero \<and> \<bar>valof h - 3183 / 1000000\<bar> < 5 / 10000000 \<and>
            \<bar>valof p - 981\<bar> \<le> 1 / 2 ^ 43
        | _ \<Rightarrow> False) \<and>
       (case out ! 61 of
          Observation t h q p \<Rightarrow>
            t = d_of_nat 59 \<and> h = water_level tank \<and> \<bar>valof h - 1910 / 10000\<bar> < 5 / 100000
        | _ \<Rightarrow> False) \<and>
       NoFlow \<notin> set out \<and> Overflow \<notin> set out \<and> obs_count out = 60 \<and>
       height tank = height main_tank \<and> dlt (water_level tank) (height main_tank)"
    using S1_run [of sleeper w] Some r by simp
  have m: "main sleeper w = Some (w', Starting # out @ [Complete])"
    using Some r by (simp add: main_def)
  have len: "length (Starting # out @ [Complete]) = 64" using run by simp
  have first: "(Starting # out @ [Complete]) ! 3 = out ! 2"
    using run by (simp add: nth_append numeral_3_eq_3 numeral_2_eq_2)
  have last: "(Starting # out @ [Complete]) ! 62 = out ! 61"
    using run by (simp add: nth_append nth_Cons')
  have notices: "NoFlow \<notin> set (Starting # out @ [Complete]) \<and>
      Overflow \<notin> set (Starting # out @ [Complete]) \<and>
      obs_count (Starting # out @ [Complete]) = 60"
    using run by (simp add: obs_count_def)
  have o1: "\<exists>h q p. out ! 2 = Observation d_zero h q p \<and>
        \<bar>valof h - 3183 / 1000000\<bar> < 5 / 10000000 \<and> \<bar>valof p - 981\<bar> \<le> 1 / 2 ^ 43"
    using run by (cases "out ! 2") auto
  have o2: "\<exists>h q p. out ! 61 = Observation (d_of_nat 59) h q p \<and>
        \<bar>valof h - 1910 / 10000\<bar> < 5 / 100000 \<and> dlt h (height main_tank)"
    using run by (cases "out ! 61") auto
  show ?thesis using m len first last notices o1 o2 by simp
qed

subsection \<open>C10: determinism\<close>

text \<open>
  Claim C10: the output of a run is a function of the parameters and the initial
  records.  The only thing a run meets outside the program is the sleeper, which
  cannot reach the records: for any two sleepers and any two states of the world
  outside, the two runs either both never return, or return the same records and have
  printed the same lines.
\<close>

theorem simulate_system_deterministic:
  "outcome (simulate_system sleeper1 w1 pump pipe tank simulation_duration time_step) =
   outcome (simulate_system sleeper2 w2 pump pipe tank simulation_duration time_step) \<and>
   printed (simulate_system sleeper1 w1 pump pipe tank simulation_duration time_step) =
   printed (simulate_system sleeper2 w2 pump pipe tank simulation_duration time_step)"
  by (simp add: printed_outcome simulate_system_def
        outcome_world [of sleeper1 _ _ w1 _ sleeper2 w2])
end
